theory Spec2Isabelle
  imports Main "HOL-Library.Char_ord" "HOL-Library.List_Lexorder"
begin

section \<open>Report generation page of the smart campus frontend\<close>

text \<open>
  A shallow embedding of \<^verbatim>\<open>sc-frontend/src/pages/ReportGenerationPage.tsx\<close>: the two
  date-range filters, the two aggregations that feed the charts, and the PDF export.
  The React component keeps its inputs in state hooks; here they are the fields of a
  record that every function receives. What the JavaScript runtime contributes
  (parsing of date strings, the local time zone, locale formatting) is a parameter.
\<close>

subsection \<open>Records fetched from the backend\<close>

text \<open>
  \<^verbatim>\<open>interface User\<close> and \<^verbatim>\<open>interface Announcement\<close>. The interface declares
  \<^verbatim>\<open>sender_name\<close> a string, yet the code guards every use with \<^verbatim>\<open>|| "Unknown"\<close>;
  \<open>None\<close> stands for a \<^verbatim>\<open>null\<close> or missing name in the JSON.
\<close>

record user =
  user_id :: int
  name :: string
  role :: string
  created_at :: string
  avatar :: string

record announcement =
  ann_id :: int
  message :: string
  sender_id :: int
  sent_at :: string
  sender_name :: "string option"

subsection \<open>JavaScript dates\<close>

text \<open>
  A \<^verbatim>\<open>Date\<close> object holds a time value: milliseconds since the epoch, or NaN
  (an invalid date). Relational operators convert both dates to numbers, and every
  comparison with NaN is false.
\<close>

datatype jsdate = Date int | InvalidDate

fun date_ge :: "jsdate \<Rightarrow> jsdate \<Rightarrow> bool" where
  "date_ge (Date a) (Date b) = (a \<ge> b)"
| "date_ge _ _ = False"

fun date_le :: "jsdate \<Rightarrow> jsdate \<Rightarrow> bool" where
  "date_le (Date a) (Date b) = (a \<le> b)"
| "date_le _ _ = False"

fun date_gt :: "jsdate \<Rightarrow> jsdate \<Rightarrow> bool" where
  "date_gt (Date a) (Date b) = (a > b)"
| "date_gt _ _ = False"

text \<open>
  The runtime: \<open>parse\<close> is \<^verbatim>\<open>new Date(string)\<close>, \<open>tza\<close> the offset of local time
  from UTC in milliseconds at a given instant, \<open>locale_date\<close> what
  \<^verbatim>\<open>toLocaleDateString()\<close> prints for a valid time value, \<open>random_color\<close> the
  colour string that the \<^verbatim>\<open>Math.random()\<close> template produces for the i-th label,
  and \<open>inherited_text\<close> the text that string concatenation gives for the value a plain
  object inherits under a name of \<^verbatim>\<open>Object.prototype\<close> (the source text of a built-in
  function, which engines print in their own way).
\<close>

record js_env =
  parse :: "string \<Rightarrow> jsdate"
  tza :: "int \<Rightarrow> int"
  locale_date :: "int \<Rightarrow> string"
  random_color :: "nat \<Rightarrow> string"
  inherited_text :: "string \<Rightarrow> string"

definition new_Date :: "js_env \<Rightarrow> string \<Rightarrow> jsdate" where
  "new_Date env s = parse env s"

definition toLocaleDateString :: "js_env \<Rightarrow> jsdate \<Rightarrow> string" where
  "toLocaleDateString env d =
     (case d of Date t \<Rightarrow> locale_date env t | InvalidDate \<Rightarrow> ''Invalid Date'')"

subsection \<open>Calendar fields of a time value\<close>

text \<open>
  \<^verbatim>\<open>getFullYear()\<close> and \<^verbatim>\<open>getMonth()\<close> read the local time
  \<open>t + tza t\<close> through ECMAScript's day arithmetic: \<open>Day\<close>, \<open>DayFromYear\<close>,
  \<open>YearFromTime\<close>, \<open>DayWithinYear\<close>, \<open>MonthFromTime\<close>. The year of a day number
  is computed in closed form over the 400-year cycle (146097 days, counted from
  March 1st of year 0); the month is read off ECMAScript's table of day ranges.
\<close>

definition msPerDay :: int where
  "msPerDay = 86400000"

definition Day :: "int \<Rightarrow> int" where
  "Day t = t div msPerDay"

definition DaysInYear :: "int \<Rightarrow> int" where
  "DaysInYear y =
     (if y mod 4 \<noteq> 0 then 365 else if y mod 100 \<noteq> 0 then 366
      else if y mod 400 \<noteq> 0 then 365 else 366)"

definition DayFromYear :: "int \<Rightarrow> int" where
  "DayFromYear y =
     365 * (y - 1970) + (y - 1969) div 4 - (y - 1901) div 100 + (y - 1601) div 400"

definition YearFromDay :: "int \<Rightarrow> int" where
  "YearFromDay d =
     (let z = d + 719468;
          era = z div 146097;
          doe = z - era * 146097;
          yoe = (doe - doe div 1460 + doe div 36524 - doe div 146096) div 365;
          doy = doe - (365 * yoe + yoe div 4 - yoe div 100);
          mp = (5 * doy + 2) div 153
      in yoe + era * 400 + (if mp < 10 then 0 else 1))"

definition YearFromTime :: "int \<Rightarrow> int" where
  "YearFromTime t = YearFromDay (Day t)"

definition InLeapYear :: "int \<Rightarrow> int" where
  "InLeapYear t = (if DaysInYear (YearFromTime t) = 366 then 1 else 0)"

definition DayWithinYear :: "int \<Rightarrow> int" where
  "DayWithinYear t = Day t - DayFromYear (YearFromTime t)"

definition MonthFromTime :: "int \<Rightarrow> int" where
  "MonthFromTime t =
     (let d = DayWithinYear t; l = InLeapYear t
      in if d < 31 then 0 else if d < 59 + l then 1 else if d < 90 + l then 2
         else if d < 120 + l then 3 else if d < 151 + l then 4
         else if d < 181 + l then 5 else if d < 212 + l then 6
         else if d < 243 + l then 7 else if d < 273 + l then 8
         else if d < 304 + l then 9 else if d < 334 + l then 10 else 11)"

definition LocalTime :: "js_env \<Rightarrow> int \<Rightarrow> int" where
  "LocalTime env t = t + tza env t"

text \<open>A JavaScript number as far as this page meets one: an integer or NaN.\<close>

datatype jsnumber = Number int | NaN

definition getFullYear :: "js_env \<Rightarrow> jsdate \<Rightarrow> jsnumber" where
  "getFullYear env d =
     (case d of Date t \<Rightarrow> Number (YearFromTime (LocalTime env t)) | InvalidDate \<Rightarrow> NaN)"

definition getMonth :: "js_env \<Rightarrow> jsdate \<Rightarrow> jsnumber" where
  "getMonth env d =
     (case d of Date t \<Rightarrow> Number (MonthFromTime (LocalTime env t)) | InvalidDate \<Rightarrow> NaN)"

fun js_plus :: "jsnumber \<Rightarrow> int \<Rightarrow> jsnumber" where
  "js_plus (Number n) k = Number (n + k)"
| "js_plus NaN k = NaN"

subsection \<open>Numbers as text\<close>

text \<open>
  A template literal prints a number with \<^verbatim>\<open>ToString\<close>: decimal digits without
  padding, a minus sign for a negative value, \<^verbatim>\<open>NaN\<close> for NaN.
\<close>

definition digit_char :: "nat \<Rightarrow> char" where
  "digit_char d = ''0123456789'' ! d"

fun dec_nat :: "nat \<Rightarrow> string" where
  "dec_nat n = (if n < 10 then [digit_char n] else dec_nat (n div 10) @ [digit_char (n mod 10)])"

declare dec_nat.simps [simp del]

definition dec_int :: "int \<Rightarrow> string" where
  "dec_int i = (if i < 0 then CHR ''-'' # dec_nat (nat (- i)) else dec_nat (nat i))"

fun ToString :: "jsnumber \<Rightarrow> string" where
  "ToString (Number n) = dec_int n"
| "ToString NaN = ''NaN''"

definition is_digit :: "char \<Rightarrow> bool" where
  "is_digit c = (CHR ''0'' \<le> c \<and> c \<le> CHR ''9'')"

definition digit_val :: "char \<Rightarrow> nat" where
  "digit_val c = of_char c - 48"

definition nat_of_digits :: "string \<Rightarrow> nat" where
  "nat_of_digits s = foldl (\<lambda>a c. 10 * a + digit_val c) 0 s"

subsection \<open>A reference runtime\<close>

text \<open>
  The concrete runtime of the worked scenarios. It parses the date-only form
  \<^verbatim>\<open>YYYY-MM-DD\<close> of ECMAScript's date-time string format, which denotes midnight UTC
  of that day, and rejects every other string (engines accept further formats by their
  own rules; none is needed below). Local time is a fixed offset from UTC, and dates
  print as month/day/year.
\<close>

definition month_start :: "int \<Rightarrow> nat \<Rightarrow> int" where
  "month_start y m =
     [0, 31, 59, 90, 120, 151, 181, 212, 243, 273, 304, 334] ! m
       + (if DaysInYear y = 366 \<and> 2 \<le> m then 1 else 0)"

definition DaysInMonth :: "int \<Rightarrow> nat \<Rightarrow> int" where
  "DaysInMonth y m =
     (if m = 1 then (if DaysInYear y = 366 then 29 else 28)
      else [31, 28, 31, 30, 31, 30, 31, 31, 30, 31, 30, 31] ! m)"

definition MakeDay :: "int \<Rightarrow> nat \<Rightarrow> int \<Rightarrow> int" where
  "MakeDay y m dt = DayFromYear y + month_start y m + dt - 1"

definition parse_date_only :: "string \<Rightarrow> jsdate" where
  "parse_date_only s =
     (if length s = 10 \<and> s ! 4 = CHR ''-'' \<and> s ! 7 = CHR ''-''
         \<and> list_all is_digit (take 4 s @ take 2 (drop 5 s) @ drop 8 s)
      then let y = int (nat_of_digits (take 4 s));
               m = nat_of_digits (take 2 (drop 5 s));
               d = int (nat_of_digits (drop 8 s))
           in if 1 \<le> m \<and> m \<le> 12 \<and> 1 \<le> d \<and> d \<le> DaysInMonth y (m - 1)
              then Date (MakeDay y (m - 1) d * msPerDay) else InvalidDate
      else InvalidDate)"

definition DateFromTime :: "int \<Rightarrow> int" where
  "DateFromTime t =
     DayWithinYear t - month_start (YearFromTime t) (nat (MonthFromTime t)) + 1"

definition ref_env :: "int \<Rightarrow> js_env" where
  "ref_env off =
     \<lparr> parse = parse_date_only,
       tza = (\<lambda>t. off),
       locale_date = (\<lambda>t. dec_int (MonthFromTime (t + off) + 1) @ ''/''
                          @ dec_int (DateFromTime (t + off)) @ ''/''
                          @ dec_int (YearFromTime (t + off))),
       random_color = (\<lambda>i. ''rgba(0, 0, 0, 0.5)''),
       inherited_text = (\<lambda>k. if k = ''__proto__'' then ''[object Object]''
                              else ''function '' @ k @ ''() { [native code] }'') \<rparr>"

subsection \<open>Component state\<close>

datatype report_kind = Users | Announcements

record page_state =
  reportType :: "report_kind option"
  startDate :: "jsdate option"
  endDate :: "jsdate option"
  users :: "user list"
  announcements :: "announcement list"

subsection \<open>Filtering by date range\<close>

text \<open>
  \<^verbatim>\<open>if (!startDate || !endDate) return data;\<close> A \<^verbatim>\<open>Date\<close> object is truthy even
  when invalid, so only \<^verbatim>\<open>null\<close> takes the early return.
\<close>

definition filterUsersByDateRange :: "js_env \<Rightarrow> page_state \<Rightarrow> user list \<Rightarrow> user list" where
  "filterUsersByDateRange env st data =
     (case (startDate st, endDate st) of
        (Some s, Some e) \<Rightarrow>
          filter (\<lambda>u. let userDate = new_Date env (created_at u)
                      in date_ge userDate s \<and> date_le userDate e) data
      | _ \<Rightarrow> data)"

definition filterAnnouncementsByDateRange ::
    "js_env \<Rightarrow> page_state \<Rightarrow> announcement list \<Rightarrow> announcement list" where
  "filterAnnouncementsByDateRange env st data =
     (case (startDate st, endDate st) of
        (Some s, Some e) \<Rightarrow>
          filter (\<lambda>a. let announcementDate = new_Date env (sent_at a)
                      in date_ge announcementDate s \<and> date_le announcementDate e) data
      | _ \<Rightarrow> data)"

subsection \<open>Plain objects used as dictionaries\<close>

text \<open>
  \<^verbatim>\<open>monthlyData\<close> and \<^verbatim>\<open>senderData\<close> are object literals \<^verbatim>\<open>{}\<close> indexed by
  computed strings. An object is modelled by its own properties in creation order.
  Three rules of the language show through such a dictionary:
  \<^item> a read of a name the object does not own continues in \<^verbatim>\<open>Object.prototype\<close>;
  \<^item> an assignment creates an own property, except under \<^verbatim>\<open>__proto__\<close>, an accessor
    whose setter ignores a value that is neither an object nor null;
  \<^item> \<^verbatim>\<open>Object.keys\<close> and \<^verbatim>\<open>Object.values\<close> list the properties whose name is an array
    index (a canonical decimal numeral up to \<open>2\<^sup>3\<^sup>2 - 2\<close>) first, in ascending numeric
    order, and the others after them in creation order.
\<close>

type_synonym 'v jsobj = "(string \<times> 'v) list"

definition Object_prototype_names :: "string list" where
  "Object_prototype_names =
     [''constructor'', ''__defineGetter__'', ''__defineSetter__'', ''hasOwnProperty'',
      ''__lookupGetter__'', ''__lookupSetter__'', ''isPrototypeOf'',
      ''propertyIsEnumerable'', ''toString'', ''valueOf'', ''__proto__'',
      ''toLocaleString'']"

datatype 'v lookup = Own 'v | Inherited string | Undefined

definition js_get :: "'v jsobj \<Rightarrow> string \<Rightarrow> 'v lookup" where
  "js_get obj k =
     (case map_of obj k of
        Some v \<Rightarrow> Own v
      | None \<Rightarrow> if k \<in> set Object_prototype_names then Inherited k else Undefined)"

definition js_set :: "'v jsobj \<Rightarrow> string \<Rightarrow> 'v \<Rightarrow> 'v jsobj" where
  "js_set obj k v =
     (if k \<in> fst ` set obj then map (\<lambda>(k', v'). if k' = k then (k', v) else (k', v')) obj
      else if k = ''__proto__'' then obj
      else obj @ [(k, v)])"

text \<open>
  \<^verbatim>\<open>obj[k].field += 1\<close>: the object found under \<open>k\<close> is changed in place. When
  \<open>k\<close> is inherited the changed object is the prototype's, and \<open>obj\<close> stays as it is.
\<close>

definition js_modify :: "'v jsobj \<Rightarrow> string \<Rightarrow> ('v \<Rightarrow> 'v) \<Rightarrow> 'v jsobj" where
  "js_modify obj k f = map (\<lambda>(k', v'). if k' = k then (k', f v') else (k', v')) obj"

definition is_array_index :: "string \<Rightarrow> bool" where
  "is_array_index s =
     (list_all is_digit s \<and> dec_nat (nat_of_digits s) = s \<and> nat_of_digits s \<le> 4294967294)"

definition own_property_order :: "'v jsobj \<Rightarrow> 'v jsobj" where
  "own_property_order obj =
     sort_key (\<lambda>p. nat_of_digits (fst p)) (filter (\<lambda>p. is_array_index (fst p)) obj)
       @ filter (\<lambda>p. \<not> is_array_index (fst p)) obj"

definition Object_keys :: "'v jsobj \<Rightarrow> string list" where
  "Object_keys obj = map fst (own_property_order obj)"

definition Object_values :: "'v jsobj \<Rightarrow> 'v list" where
  "Object_values obj = map snd (own_property_order obj)"

subsection \<open>Chart data\<close>

text \<open>
  The object handed to \<^verbatim>\<open>react-chartjs-2\<close>. The line chart's datasets carry two
  colour strings and number data; the bar chart's dataset carries one colour per label,
  no border colour, and whatever values \<^verbatim>\<open>senderData\<close> holds.
\<close>

record ('d, 'c) dataset =
  label :: string
  data :: "'d list"
  borderColor :: "string option"
  backgroundColor :: 'c

record ('d, 'c) chart_data =
  labels :: "string list"
  datasets :: "('d, 'c) dataset list"

record ('r, 'd, 'c) report =
  tableData :: "'r list"
  chartData :: "('d, 'c) chart_data"

subsection \<open>User registration trends\<close>

record month_counts =
  students :: nat
  lecturers :: nat

definition monthKey :: "js_env \<Rightarrow> jsdate \<Rightarrow> string" where
  "monthKey env date =
     ToString (getFullYear env date) @ ''-'' @ ToString (js_plus (getMonth env date) 1)"

text \<open>One turn of \<^verbatim>\<open>filteredUsers.forEach\<close>.\<close>

definition count_user :: "js_env \<Rightarrow> month_counts jsobj \<Rightarrow> user \<Rightarrow> month_counts jsobj" where
  "count_user env monthlyData u =
     (let date = new_Date env (created_at u);
          k = monthKey env date;
          monthlyData' =
            (case js_get monthlyData k of
               Undefined \<Rightarrow> js_set monthlyData k \<lparr>students = 0, lecturers = 0\<rparr>
             | _ \<Rightarrow> monthlyData)
      in if role u = ''student''
         then js_modify monthlyData' k (\<lambda>c. c\<lparr>students := students c + 1\<rparr>)
         else if role u = ''lecturer''
         then js_modify monthlyData' k (\<lambda>c. c\<lparr>lecturers := lecturers c + 1\<rparr>)
         else monthlyData')"

definition monthly_counts :: "js_env \<Rightarrow> user list \<Rightarrow> month_counts jsobj" where
  "monthly_counts env filteredUsers = foldl (count_user env) [] filteredUsers"

text \<open>
  \<^verbatim>\<open>labels.map((label) => monthlyData[label].students)\<close>: every label is an own key of
  \<^verbatim>\<open>monthlyData\<close>, so the read always finds a record; the \<open>None\<close> branch is never taken
  (lemma \<open>column_of_own\<close> below).
\<close>

definition column :: "month_counts jsobj \<Rightarrow> (month_counts \<Rightarrow> nat) \<Rightarrow> string list \<Rightarrow> nat list" where
  "column monthlyData field ls =
     map (\<lambda>l. case map_of monthlyData l of Some c \<Rightarrow> field c | None \<Rightarrow> 0) ls"

definition getUserRegistrationData ::
    "js_env \<Rightarrow> page_state \<Rightarrow> (user, nat, string) report" where
  "getUserRegistrationData env st =
     (let filteredUsers = filterUsersByDateRange env st (users st);
          monthlyData = monthly_counts env filteredUsers;
          ls = sort (Object_keys monthlyData);
          studentData = column monthlyData students ls;
          lecturerData = column monthlyData lecturers ls
      in \<lparr> tableData = filteredUsers,
           chartData =
             \<lparr> labels = ls,
               datasets =
                 [ \<lparr> label = ''Students'', data = studentData,
                     borderColor = Some ''rgb(255, 99, 132)'',
                     backgroundColor = ''rgba(255, 99, 132, 0.5)'' \<rparr>,
                   \<lparr> label = ''Lecturers'', data = lecturerData,
                     borderColor = Some ''rgb(53, 162, 235)'',
                     backgroundColor = ''rgba(53, 162, 235, 0.5)'' \<rparr> ] \<rparr> \<rparr>)"

subsection \<open>Announcement activity\<close>

text \<open>
  \<^verbatim>\<open>senderData\<close> is declared to hold numbers. A value read through the prototype is
  not one, and adding 1 to it concatenates text, so a stored value is a number or a
  string.
\<close>

datatype jsval = Num nat | Str string

text \<open>\<^verbatim>\<open>announcement.sender_name || "Unknown"\<close>: null, undefined and the empty string are falsy.\<close>

definition sender_of :: "announcement \<Rightarrow> string" where
  "sender_of a =
     (case sender_name a of None \<Rightarrow> ''Unknown'' | Some s \<Rightarrow> if s = [] then ''Unknown'' else s)"

text \<open>\<^verbatim>\<open>(senderData[sender] || 0) + 1\<close> for each outcome of the read.\<close>

fun count_up :: "js_env \<Rightarrow> jsval lookup \<Rightarrow> jsval" where
  "count_up env Undefined = Num 1"
| "count_up env (Own (Num n)) = Num (n + 1)"
| "count_up env (Own (Str s)) = (if s = [] then Num 1 else Str (s @ ''1''))"
| "count_up env (Inherited k) = Str (inherited_text env k @ ''1'')"

definition count_sender :: "js_env \<Rightarrow> jsval jsobj \<Rightarrow> announcement \<Rightarrow> jsval jsobj" where
  "count_sender env senderData a =
     (let sender = sender_of a
      in js_set senderData sender (count_up env (js_get senderData sender)))"

definition sender_counts :: "js_env \<Rightarrow> announcement list \<Rightarrow> jsval jsobj" where
  "sender_counts env filteredAnnouncements = foldl (count_sender env) [] filteredAnnouncements"

definition getAnnouncementActivityData ::
    "js_env \<Rightarrow> page_state \<Rightarrow> (announcement, jsval, string list) report" where
  "getAnnouncementActivityData env st =
     (let filteredAnnouncements = filterAnnouncementsByDateRange env st (announcements st);
          senderData = sender_counts env filteredAnnouncements;
          ls = Object_keys senderData;
          vs = Object_values senderData
      in \<lparr> tableData = filteredAnnouncements,
           chartData =
             \<lparr> labels = ls,
               datasets =
                 [ \<lparr> label = ''Announcements'', data = vs,
                     borderColor = None,
                     backgroundColor = map (random_color env) [0..<length ls] \<rparr> ] \<rparr> \<rparr>)"

subsection \<open>PDF export\<close>

text \<open>
  \<^verbatim>\<open>downloadPDF\<close> writes three lines of text at fixed positions, at most one table
  (\<^verbatim>\<open>autoTable\<close>), and saves the document under a fixed file name. The result of the
  model is the saved file.
\<close>

record autotable =
  head :: "string list list"
  body :: "string list list"
  startY :: nat

record pdf_doc =
  texts :: "(string \<times> nat \<times> nat) list"
  tables :: "autotable list"

record saved_file =
  file_name :: string
  content :: pdf_doc

text \<open>\<^verbatim>\<open>d?.toLocaleDateString() || "N/A"\<close>\<close>

definition range_bound :: "js_env \<Rightarrow> jsdate option \<Rightarrow> string" where
  "range_bound env d =
     (case d of
        None \<Rightarrow> ''N/A''
      | Some x \<Rightarrow> let s = toLocaleDateString env x in if s = [] then ''N/A'' else s)"

text \<open>\<^verbatim>\<open>s ? new Date(s).toLocaleDateString() : "N/A"\<close>\<close>

definition date_cell :: "js_env \<Rightarrow> string \<Rightarrow> string" where
  "date_cell env s = (if s \<noteq> [] then toLocaleDateString env (new_Date env s) else ''N/A'')"

definition downloadPDF :: "js_env \<Rightarrow> page_state \<Rightarrow> saved_file" where
  "downloadPDF env st =
     (let line1 = (''Smart Campus Report'', 20, 20);
          line2 = (''Report Type: '' @
                     (if reportType st = Some Users then ''User Registration Trends''
                      else ''Announcement Activity''), 20, 30);
          line3 = (''Date Range: '' @ range_bound env (startDate st) @ '' - ''
                     @ range_bound env (endDate st), 20, 40);
          tbls =
            (if reportType st = Some Users then
               [\<lparr> head = [[''Name'', ''Role'', ''Registered At'']],
                  body = map (\<lambda>u. [name u, role u, date_cell env (created_at u)])
                           (tableData (getUserRegistrationData env st)),
                  startY = 50 \<rparr>]
             else if reportType st = Some Announcements then
               [\<lparr> head = [[''Message'', ''Sender'', ''Sent At'']],
                  body = map (\<lambda>a. [message a, sender_of a, date_cell env (sent_at a)])
                           (tableData (getAnnouncementActivityData env st)),
                  startY = 50 \<rparr>]
             else [])
      in \<lparr> file_name = ''report.pdf'',
           content = \<lparr> texts = [line1, line2, line3], tables = tbls \<rparr> \<rparr>)"

text \<open>
  The page offers the export only while a report type is selected:
  \<^verbatim>\<open>{reportType && (<button onClick={downloadPDF}>Download PDF</button>)}\<close>.
  Pressing the button is possible exactly when it is rendered.
\<close>

definition download_button_rendered :: "page_state \<Rightarrow> bool" where
  "download_button_rendered st = (reportType st \<noteq> None)"

definition press_download :: "js_env \<Rightarrow> page_state \<Rightarrow> saved_file option" where
  "press_download env st =
     (if download_button_rendered st then Some (downloadPDF env st) else None)"

subsection \<open>Reference notions for the aggregations\<close>

text \<open>
  The distinct elements of a list in the order in which each is first seen. The library's
  \<open>remdups\<close> keeps the last occurrence of each element, hence the two reversals.
\<close>

definition first_seen :: "'a list \<Rightarrow> 'a list" where
  "first_seen xs = rev (remdups (rev xs))"

text \<open>The order of \<^verbatim>\<open>Object.keys\<close>, stated on the list of keys in creation order.\<close>

definition key_order :: "string list \<Rightarrow> string list" where
  "key_order ks =
     sort_key nat_of_digits (filter is_array_index ks)
       @ filter (\<lambda>k. \<not> is_array_index k) ks"

text \<open>The bucket key of a user, and the numbers of students and lecturers under a key.\<close>

definition user_key :: "js_env \<Rightarrow> user \<Rightarrow> string" where
  "user_key env u = monthKey env (new_Date env (created_at u))"

definition tally :: "js_env \<Rightarrow> user list \<Rightarrow> string \<Rightarrow> month_counts" where
  "tally env us k =
     \<lparr> students = length (filter (\<lambda>u. user_key env u = k \<and> role u = ''student'') us),
       lecturers = length (filter (\<lambda>u. user_key env u = k \<and> role u = ''lecturer'') us) \<rparr>"

subsection \<open>Inputs of the worked scenarios\<close>

definition new_user :: "int \<Rightarrow> string \<Rightarrow> string \<Rightarrow> string \<Rightarrow> user" where
  "new_user i n r c = \<lparr> user_id = i, name = n, role = r, created_at = c, avatar = [] \<rparr>"

definition new_announcement :: "int \<Rightarrow> string option \<Rightarrow> string \<Rightarrow> announcement" where
  "new_announcement i s c =
     \<lparr> ann_id = i, message = ''hello'', sender_id = 1, sent_at = c, sender_name = s \<rparr>"

definition scenarioA_users :: "user list" where
  "scenarioA_users =
     [ new_user 1 ''Asha'' ''student'' ''2024-01-15'',
       new_user 2 ''Bimal'' ''lecturer'' ''2024-01-20'',
       new_user 3 ''Chathu'' ''student'' ''2024-02-01'' ]"

definition scenarioC_announcements :: "announcement list" where
  "scenarioC_announcements =
     [ new_announcement 1 (Some ''Alice'') ''2024-01-15'',
       new_announcement 2 (Some ''Bob'') ''2024-01-20'',
       new_announcement 3 (Some ''Alice'') ''2024-02-01'' ]"

definition page :: "report_kind option \<Rightarrow> jsdate option \<Rightarrow> jsdate option
    \<Rightarrow> user list \<Rightarrow> announcement list \<Rightarrow> page_state" where
  "page k s e us as =
     \<lparr> reportType = k, startDate = s, endDate = e, users = us, announcements = as \<rparr>"

section \<open>Properties\<close>

subsection \<open>Evaluation of the reference runtime\<close>

lemmas calendar_defs =
  msPerDay_def Day_def DaysInYear_def DayFromYear_def YearFromDay_def YearFromTime_def
  InLeapYear_def DayWithinYear_def MonthFromTime_def LocalTime_def

lemmas text_defs =
  is_digit_def digit_val_def nat_of_digits_def digit_char_def dec_int_def dec_nat.simps

lemmas parse_defs =
  parse_date_only_def DaysInMonth_def MakeDay_def month_start_def

lemma parse_2024_01_15: "parse_date_only ''2024-01-15'' = Date 1705276800000"
  by (simp add: parse_defs text_defs calendar_defs)

lemma parse_2024_01_20: "parse_date_only ''2024-01-20'' = Date 1705708800000"
  by (simp add: parse_defs text_defs calendar_defs)

lemma parse_2024_02_01: "parse_date_only ''2024-02-01'' = Date 1706745600000"
  by (simp add: parse_defs text_defs calendar_defs)

lemma parse_not_a_date: "parse_date_only ''not a date'' = InvalidDate"
  by (simp add: parse_defs text_defs calendar_defs)

lemma new_Date_ref_env: "new_Date (ref_env off) s = parse_date_only s"
  by (simp add: new_Date_def ref_env_def)

subsection \<open>The range filter\<close>

text \<open>
  Claim C1, as stated: a record is kept if and only if (start unset or timestamp \<ge> start)
  and (end unset or timestamp \<le> end), so that a window with one bound still filters by
  that bound. The code returns its input as soon as either bound is \<^verbatim>\<open>null\<close>: with the
  start at 2024-02-01 and no end, a record of 2024-01-15, earlier than the start, is kept.
\<close>

theorem range_filter_one_bound_counterexample:
  "filterUsersByDateRange (ref_env 0)
       (page (Some Users) (Some (Date 1706745600000)) None [] [])
       [new_user 1 ''Asha'' ''student'' ''2024-01-15'']
     = [new_user 1 ''Asha'' ''student'' ''2024-01-15'']
   \<and> \<not> date_ge (new_Date (ref_env 0)
                  (created_at (new_user 1 ''Asha'' ''student'' ''2024-01-15'')))
              (Date 1706745600000)"
  by (simp add: filterUsersByDateRange_def page_def new_user_def new_Date_ref_env
      parse_2024_01_15)

text \<open>
  Claim C1, amended: when either bound of the window is unset every record is kept; when
  both are set, a record is kept if and only if its timestamp parses to a valid date that
  is \<ge> start and \<le> end, both bounds being valid dates and both comparisons inclusive.
  The result is the input with the other records removed, in the input's order. This
  holds for the filter of users and for the filter of announcements.
\<close>

theorem range_filter_keeps:
  "filterUsersByDateRange env st us =
     filter (\<lambda>u. startDate st = None \<or> endDate st = None \<or>
                 (\<exists>s e t. startDate st = Some (Date s) \<and> endDate st = Some (Date e)
                    \<and> new_Date env (created_at u) = Date t \<and> s \<le> t \<and> t \<le> e)) us
   \<and> filterAnnouncementsByDateRange env st as =
     filter (\<lambda>a. startDate st = None \<or> endDate st = None \<or>
                 (\<exists>s e t. startDate st = Some (Date s) \<and> endDate st = Some (Date e)
                    \<and> new_Date env (sent_at a) = Date t \<and> s \<le> t \<and> t \<le> e)) as"
proof -
  have ge: "date_ge d s \<longleftrightarrow> (\<exists>a b. d = Date a \<and> s = Date b \<and> b \<le> a)" for d s
    by (cases d; cases s) auto
  have le: "date_le d e \<longleftrightarrow> (\<exists>a b. d = Date a \<and> e = Date b \<and> a \<le> b)" for d e
    by (cases d; cases e) auto
  have both: "date_ge d s \<and> date_le d e \<longleftrightarrow>
      (\<exists>x y t. s = Date x \<and> e = Date y \<and> d = Date t \<and> x \<le> t \<and> t \<le> y)" for d s e
    unfolding ge le by auto
  show ?thesis
  proof (cases "startDate st")
    case None
    then show ?thesis
      by (simp add: filterUsersByDateRange_def filterAnnouncementsByDateRange_def)
  next
    case s: (Some s)
    show ?thesis
    proof (cases "endDate st")
      case None
      then show ?thesis
        by (simp add: filterUsersByDateRange_def filterAnnouncementsByDateRange_def s)
    next
      case e: (Some e)
      show ?thesis
        by (simp add: filterUsersByDateRange_def filterAnnouncementsByDateRange_def s e
            Let_def both)
    qed
  qed
qed

theorem range_filter_keeps_witness:
  "filterUsersByDateRange (ref_env 0)
       (page (Some Users) (Some (Date 1706745600000)) (Some (Date 1709078400000)) [] [])
       scenarioA_users
     = [new_user 3 ''Chathu'' ''student'' ''2024-02-01'']"
  using range_filter_keeps
    [of "ref_env 0"
        "page (Some Users) (Some (Date 1706745600000)) (Some (Date 1709078400000)) [] []"
        scenarioA_users "[]"]
  by (simp add: page_def scenarioA_users_def new_user_def new_Date_ref_env
      parse_2024_01_15 parse_2024_01_20 parse_2024_02_01)

text \<open>
  Claim C7: when both bounds are present and start > end, the range filter returns the
  empty sequence, for users and for announcements alike; being a total function it
  raises nothing.
\<close>

theorem range_filter_reversed_window_empty:
  assumes "startDate st = Some s" and "endDate st = Some e" and "date_gt s e"
  shows "filterUsersByDateRange env st us = []
       \<and> filterAnnouncementsByDateRange env st as = []"
proof -
  have "\<not> (date_ge d s \<and> date_le d e)" for d
    using assms(3) by (cases d; cases s; cases e) auto
  then show ?thesis
    using assms(1,2)
    by (simp add: filterUsersByDateRange_def filterAnnouncementsByDateRange_def Let_def)
qed

theorem range_filter_reversed_window_empty_witness:
  "date_gt (Date 1709078400000) (Date 1706745600000)
   \<and> filterUsersByDateRange (ref_env 0)
       (page (Some Users) (Some (Date 1709078400000)) (Some (Date 1706745600000)) [] [])
       scenarioA_users = []
   \<and> filterAnnouncementsByDateRange (ref_env 0)
       (page (Some Users) (Some (Date 1709078400000)) (Some (Date 1706745600000)) [] [])
       scenarioC_announcements = []"
  using range_filter_reversed_window_empty
    [of "page (Some Users) (Some (Date 1709078400000)) (Some (Date 1706745600000)) [] []"
        "Date 1709078400000" "Date 1706745600000" "ref_env 0" scenarioA_users
        scenarioC_announcements]
  by (simp add: page_def)

text \<open>
  Claim C8: the range filter is idempotent: applied to its own output with the same
  window it returns that output unchanged.
\<close>

theorem range_filter_idempotent:
  "filterUsersByDateRange env st (filterUsersByDateRange env st us)
     = filterUsersByDateRange env st us
   \<and> filterAnnouncementsByDateRange env st (filterAnnouncementsByDateRange env st as)
     = filterAnnouncementsByDateRange env st as"
  by (simp add: filterUsersByDateRange_def filterAnnouncementsByDateRange_def
      split: option.splits)

text \<open>
  Claim C9: with both bounds present, a record whose timestamp does not parse to a valid
  date is excluded by the range filter; with either bound absent the filter returns its
  input unchanged, so such a record passes.
\<close>

theorem range_filter_invalid_timestamp:
  assumes "new_Date env (created_at u) = InvalidDate"
    and "new_Date env (sent_at a) = InvalidDate"
  shows "(startDate st \<noteq> None \<and> endDate st \<noteq> None \<longrightarrow>
            u \<notin> set (filterUsersByDateRange env st us)
          \<and> a \<notin> set (filterAnnouncementsByDateRange env st as))
       \<and> (startDate st = None \<or> endDate st = None \<longrightarrow>
            filterUsersByDateRange env st us = us
          \<and> filterAnnouncementsByDateRange env st as = as)"
  using assms
  by (auto simp: filterUsersByDateRange_def filterAnnouncementsByDateRange_def
      split: option.splits)

theorem range_filter_invalid_timestamp_witness:
  "new_Date (ref_env 0) (created_at (new_user 4 ''Dilan'' ''student'' ''not a date''))
     = InvalidDate
   \<and> new_user 4 ''Dilan'' ''student'' ''not a date''
       \<notin> set (filterUsersByDateRange (ref_env 0)
           (page (Some Users) (Some (Date 0)) (Some (Date 1709078400000)) [] [])
           [new_user 4 ''Dilan'' ''student'' ''not a date''])
   \<and> filterUsersByDateRange (ref_env 0)
           (page (Some Users) (Some (Date 0)) None [] [])
           [new_user 4 ''Dilan'' ''student'' ''not a date'']
       = [new_user 4 ''Dilan'' ''student'' ''not a date'']"
  using range_filter_invalid_timestamp
    [of "ref_env 0" "new_user 4 ''Dilan'' ''student'' ''not a date''"
        "new_announcement 5 None ''not a date''"
        "page (Some Users) (Some (Date 0)) (Some (Date 1709078400000)) [] []"
        "[new_user 4 ''Dilan'' ''student'' ''not a date'']" "[]"]
    range_filter_invalid_timestamp
    [of "ref_env 0" "new_user 4 ''Dilan'' ''student'' ''not a date''"
        "new_announcement 5 None ''not a date''"
        "page (Some Users) (Some (Date 0)) None [] []"
        "[new_user 4 ''Dilan'' ''student'' ''not a date'']" "[]"]
  by (simp add: page_def new_user_def new_announcement_def new_Date_ref_env
      parse_not_a_date)

subsection \<open>Export with no report type selected\<close>

text \<open>
  Claim C2: with the report kind unset the export produces no document; that state is an
  idle state, not a fault. \<^verbatim>\<open>downloadPDF\<close> is a closure of the component whose only use
  is the click handler of the download button, and the page renders that button under
  \<^verbatim>\<open>reportType &&\<close>. With the report kind unset, whatever the date window and the
  fetched records, the button is not rendered and the export yields no file.
\<close>

theorem export_unset_kind:
  assumes "reportType st = None"
  shows "\<not> download_button_rendered st \<and> press_download env st = None"
  using assms
  by (simp add: download_button_rendered_def press_download_def)

theorem export_unset_kind_witness:
  "reportType (page None (Some (Date 1706745600000)) None scenarioA_users []) = None
   \<and> press_download (ref_env 0)
       (page None (Some (Date 1706745600000)) None scenarioA_users []) = None
   \<and> press_download (ref_env 0) (page None None None [] scenarioC_announcements) = None"
  using export_unset_kind
    [of "page None (Some (Date 1706745600000)) None scenarioA_users []" "ref_env 0"]
    export_unset_kind
    [of "page None None None [] scenarioC_announcements" "ref_env 0"]
  by (simp add: page_def)

subsection \<open>Shape of the chart data\<close>

lemma monthly_counts_Nil: "monthly_counts env [] = []"
  by (simp add: monthly_counts_def)

lemma sender_counts_Nil: "sender_counts env [] = []"
  by (simp add: sender_counts_def)

lemma own_property_order_Nil: "own_property_order [] = []"
  by (simp add: own_property_order_def)

text \<open>
  Claim C10: the registration chart always has exactly two datasets, labelled
  \<^verbatim>\<open>Students\<close> then \<^verbatim>\<open>Lecturers\<close>, and the activity chart exactly one, labelled
  \<^verbatim>\<open>Announcements\<close>; when the filtered record set is empty the labels are empty and so
  is every dataset's list of values.
\<close>

theorem chart_datasets_fixed:
  "map label (datasets (chartData (getUserRegistrationData env st)))
     = [''Students'', ''Lecturers'']
   \<and> map label (datasets (chartData (getAnnouncementActivityData env st)))
     = [''Announcements'']
   \<and> (tableData (getUserRegistrationData env st) = [] \<longrightarrow>
        labels (chartData (getUserRegistrationData env st)) = []
      \<and> map data (datasets (chartData (getUserRegistrationData env st))) = [[], []])
   \<and> (tableData (getAnnouncementActivityData env st) = [] \<longrightarrow>
        labels (chartData (getAnnouncementActivityData env st)) = []
      \<and> map data (datasets (chartData (getAnnouncementActivityData env st))) = [[]])"
  by (simp add: getUserRegistrationData_def getAnnouncementActivityData_def Let_def
      monthly_counts_Nil sender_counts_Nil Object_keys_def Object_values_def
      own_property_order_Nil column_def)

theorem chart_datasets_fixed_witness:
  "tableData (getUserRegistrationData (ref_env 0)
      (page (Some Users) (Some (Date 1709078400000)) (Some (Date 1706745600000))
         scenarioA_users scenarioC_announcements)) = []
   \<and> labels (chartData (getUserRegistrationData (ref_env 0)
      (page (Some Users) (Some (Date 1709078400000)) (Some (Date 1706745600000))
         scenarioA_users scenarioC_announcements))) = []
   \<and> map data (datasets (chartData (getAnnouncementActivityData (ref_env 0)
      (page (Some Users) (Some (Date 1709078400000)) (Some (Date 1706745600000))
         scenarioA_users scenarioC_announcements)))) = [[]]"
proof -
  let ?st = "page (Some Users) (Some (Date 1709078400000)) (Some (Date 1706745600000))
         scenarioA_users scenarioC_announcements"
  have u: "tableData (getUserRegistrationData (ref_env 0) ?st) = []"
    by (simp add: getUserRegistrationData_def Let_def filterUsersByDateRange_def page_def
        scenarioA_users_def new_user_def new_Date_ref_env
        parse_2024_01_15 parse_2024_01_20 parse_2024_02_01)
  have a: "tableData (getAnnouncementActivityData (ref_env 0) ?st) = []"
    by (simp add: getAnnouncementActivityData_def Let_def filterAnnouncementsByDateRange_def
        page_def scenarioC_announcements_def new_announcement_def new_Date_ref_env
        parse_2024_01_15 parse_2024_01_20 parse_2024_02_01)
  from u a chart_datasets_fixed [of "ref_env 0" ?st] show ?thesis
    by simp
qed

subsection \<open>Order of first appearance\<close>

lemma first_seen_Nil: "first_seen [] = []"
  by (simp add: first_seen_def)

lemma first_seen_snoc:
  "first_seen (xs @ [x]) = (if x \<in> set xs then first_seen xs else first_seen xs @ [x])"
  by (simp add: first_seen_def)

lemma set_first_seen: "set (first_seen xs) = set xs"
  by (simp add: first_seen_def)

lemma distinct_first_seen: "distinct (first_seen xs)"
  by (simp add: first_seen_def)

subsection \<open>Reading and writing own properties\<close>

lemma map_of_keyed:
  "map_of (map (\<lambda>k. (k, f k)) ks) k = (if k \<in> set ks then Some (f k) else None)"
  by (induction ks) auto

lemma fst_keyed: "map fst (map (\<lambda>k. (k, f k)) ks) = ks"
  by (induction ks) auto

lemma js_get_keyed:
  "js_get (map (\<lambda>k. (k, f k)) ks) k =
     (if k \<in> set ks then Own (f k)
      else if k \<in> set Object_prototype_names then Inherited k else Undefined)"
  by (simp add: js_get_def map_of_keyed)

lemma js_set_keyed_old:
  "k \<in> set ks \<Longrightarrow>
     js_set (map (\<lambda>k. (k, f k)) ks) k v = map (\<lambda>k'. (k', if k' = k then v else f k')) ks"
  by (auto simp: js_set_def image_iff)

lemma js_set_keyed_new:
  "k \<notin> set ks \<Longrightarrow> k \<noteq> ''__proto__'' \<Longrightarrow>
     js_set (map (\<lambda>k. (k, f k)) ks) k v = map (\<lambda>k. (k, f k)) ks @ [(k, v)]"
  by (auto simp: js_set_def image_iff)

lemma js_set_proto_ignored:
  "''__proto__'' \<notin> set ks \<Longrightarrow>
     js_set (map (\<lambda>k. (k, f k)) ks) ''__proto__'' v = map (\<lambda>k. (k, f k)) ks"
  by (auto simp: js_set_def image_iff)

lemma js_modify_keyed:
  "js_modify (map (\<lambda>k. (k, f k)) ks) k g
     = map (\<lambda>k'. (k', if k' = k then g (f k') else f k')) ks"
  by (auto simp: js_modify_def)

lemma proto_in_prototype_names: "''__proto__'' \<in> set Object_prototype_names"
  by (simp add: Object_prototype_names_def)

subsection \<open>Enumeration order of own properties\<close>

lemma insort_key_map:
  "insort_key h (g x) (map g xs) = map g (insort_key (\<lambda>a. h (g a)) x xs)"
  by (induction xs) auto

lemma sort_key_map: "sort_key h (map g xs) = map g (sort_key (\<lambda>a. h (g a)) xs)"
  by (induction xs) (auto simp: insort_key_map)

lemma own_property_order_keyed:
  "own_property_order (map (\<lambda>k. (k, f k)) ks) = map (\<lambda>k. (k, f k)) (key_order ks)"
  by (simp add: own_property_order_def key_order_def filter_map sort_key_map comp_def)

lemma Object_keys_keyed: "Object_keys (map (\<lambda>k. (k, f k)) ks) = key_order ks"
  by (simp add: Object_keys_def own_property_order_keyed comp_def)

lemma Object_values_keyed: "Object_values (map (\<lambda>k. (k, f k)) ks) = map f (key_order ks)"
  by (simp add: Object_values_def own_property_order_keyed comp_def)

lemma key_order_no_index: "\<forall>k\<in>set ks. \<not> is_array_index k \<Longrightarrow> key_order ks = ks"
  by (simp add: key_order_def filter_empty_conv)

lemma set_key_order: "set (key_order ks) = set ks"
  by (auto simp: key_order_def)

lemma distinct_key_order: "distinct ks \<Longrightarrow> distinct (key_order ks)"
  by (auto simp: key_order_def)
subsection \<open>Month keys\<close>

lemma monthKey_has_dash: "CHR ''-'' \<in> set (monthKey env d)"
  by (simp add: monthKey_def)

lemma prototype_name_no_dash: "k \<in> set Object_prototype_names \<Longrightarrow> CHR ''-'' \<notin> set k"
  by (auto simp: Object_prototype_names_def)

lemma array_index_no_dash: "is_array_index k \<Longrightarrow> CHR ''-'' \<notin> set k"
  by (auto simp: is_array_index_def list_all_iff is_digit_def)

lemma monthKey_not_inherited: "monthKey env d \<notin> set Object_prototype_names"
  using monthKey_has_dash prototype_name_no_dash by blast

lemma monthKey_not_index: "\<not> is_array_index (monthKey env d)"
  using monthKey_has_dash array_index_no_dash by blast

lemma monthKey_invalid: "monthKey env InvalidDate = ''NaN-NaN''"
  by (simp add: monthKey_def getFullYear_def getMonth_def)

lemma month_in_range: "0 \<le> MonthFromTime t \<and> MonthFromTime t \<le> 11"
  by (simp add: MonthFromTime_def Let_def)

subsection \<open>The registration counts in closed form\<close>

lemma tally_Nil: "tally env [] k = \<lparr> students = 0, lecturers = 0 \<rparr>"
  by (simp add: tally_def)

lemma tally_absent:
  "k \<notin> user_key env ` set us \<Longrightarrow> tally env us k = \<lparr> students = 0, lecturers = 0 \<rparr>"
  by (auto simp: tally_def filter_empty_conv)

lemma tally_snoc:
  "tally env (us @ [u]) k' =
     (if k' = user_key env u then
        (if role u = ''student''
         then (tally env us k')\<lparr>students := students (tally env us k') + 1\<rparr>
         else if role u = ''lecturer''
         then (tally env us k')\<lparr>lecturers := lecturers (tally env us k') + 1\<rparr>
         else tally env us k')
      else tally env us k')"
  by (auto simp: tally_def)

lemma keyed_snoc:
  "k \<notin> set ks \<Longrightarrow>
     map (\<lambda>k'. (k', f k')) ks @ [(k, f k)] = map (\<lambda>k'. (k', f k')) (ks @ [k])"
  by simp

lemma count_user_keyed:
  assumes md: "md = map (\<lambda>k. (k, tally env us k)) (first_seen (map (user_key env) us))"
  shows "count_user env md u
     = map (\<lambda>k. (k, tally env (us @ [u]) k)) (first_seen (map (user_key env) (us @ [u])))"
proof -
  let ?k = "user_key env u"
  let ?ks = "first_seen (map (user_key env) us)"
  let ?ks' = "first_seen (map (user_key env) (us @ [u]))"
  have not_inh: "?k \<notin> set Object_prototype_names"
    by (simp add: user_key_def monthKey_not_inherited)
  then have not_proto: "?k \<noteq> ''__proto__''"
    using proto_in_prototype_names by metis
  have ks': "first_seen (map (user_key env) us @ [?k])
      = (if ?k \<in> set ?ks then ?ks else ?ks @ [?k])"
    by (simp add: first_seen_snoc set_first_seen)
  have step1: "(case js_get md ?k of
                  Undefined \<Rightarrow> js_set md ?k \<lparr>students = 0, lecturers = 0\<rparr>
                | _ \<Rightarrow> md)
               = map (\<lambda>k. (k, tally env us k)) ?ks'"
  proof (cases "?k \<in> set ?ks")
    case True
    then show ?thesis
      by (simp add: md js_get_keyed ks')
  next
    case False
    then have "tally env us ?k = \<lparr>students = 0, lecturers = 0\<rparr>"
      by (simp add: tally_absent set_first_seen)
    with False not_inh not_proto show ?thesis
      by (simp add: md js_get_keyed ks' js_set_keyed_new)
  qed
  have in': "?k \<in> set ?ks'"
    by (simp add: ks')
  show ?thesis
    unfolding count_user_def Let_def user_key_def [symmetric] step1
    by (auto simp: js_modify_keyed tally_snoc)
qed

lemma monthly_counts_snoc:
  "monthly_counts env (us @ [u]) = count_user env (monthly_counts env us) u"
  by (simp add: monthly_counts_def)

lemma monthly_counts_eq:
  "monthly_counts env us
     = map (\<lambda>k. (k, tally env us k)) (first_seen (map (user_key env) us))"
proof (induction us rule: rev_induct)
  case Nil
  then show ?case
    by (simp add: monthly_counts_Nil first_seen_Nil)
next
  case (snoc u us)
  then show ?case
    by (simp only: monthly_counts_snoc count_user_keyed)
qed

lemma Object_keys_monthly:
  "Object_keys (monthly_counts env us) = first_seen (map (user_key env) us)"
proof -
  have "\<forall>k\<in>set (first_seen (map (user_key env) us)). \<not> is_array_index k"
    by (auto simp: set_first_seen user_key_def monthKey_not_index)
  then show ?thesis
    by (simp add: monthly_counts_eq Object_keys_keyed key_order_no_index)
qed

lemma column_monthly:
  "set ls \<subseteq> user_key env ` set us \<Longrightarrow>
     column (monthly_counts env us) field ls = map (\<lambda>l. field (tally env us l)) ls"
  by (auto simp: column_def monthly_counts_eq map_of_keyed set_first_seen)

lemma registration_labels:
  "labels (chartData (getUserRegistrationData env st))
     = sort (first_seen (map (user_key env) (filterUsersByDateRange env st (users st))))"
  by (simp add: getUserRegistrationData_def Let_def Object_keys_monthly)

lemma registration_data:
  "map data (datasets (chartData (getUserRegistrationData env st)))
     = [ map (\<lambda>l. students (tally env (filterUsersByDateRange env st (users st)) l))
           (labels (chartData (getUserRegistrationData env st))),
         map (\<lambda>l. lecturers (tally env (filterUsersByDateRange env st (users st)) l))
           (labels (chartData (getUserRegistrationData env st))) ]"
  by (simp add: getUserRegistrationData_def Let_def Object_keys_monthly column_monthly
      set_first_seen)
subsection \<open>The sender counts in closed form\<close>

text \<open>
  As long as no sender name is a name of \<^verbatim>\<open>Object.prototype\<close>, \<^verbatim>\<open>senderData\<close> holds,
  for each distinct name in order of first appearance, the number of announcements under
  that name.
\<close>

lemma count_sender_keyed:
  assumes sd: "sd = map (\<lambda>k. (k, Num (count_list ns k))) (first_seen ns)"
    and ok: "sender_of a \<notin> set Object_prototype_names"
  shows "count_sender env sd a
     = map (\<lambda>k. (k, Num (count_list (ns @ [sender_of a]) k)))
         (first_seen (ns @ [sender_of a]))"
proof -
  let ?k = "sender_of a"
  have not_proto: "?k \<noteq> ''__proto__''"
    using ok proto_in_prototype_names by metis
  show ?thesis
  proof (cases "?k \<in> set ns")
    case True
    then show ?thesis
      by (simp add: count_sender_def Let_def sd js_get_keyed set_first_seen
          js_set_keyed_old first_seen_snoc)
  next
    case False
    then have zero: "count_list ns ?k = 0"
      by (simp add: count_list_0_iff)
    have others: "map (\<lambda>k. (k, Num (count_list ns k))) (first_seen ns)
        = map (\<lambda>k. (k, Num (if ?k = k then count_list ns k + 1 else count_list ns k)))
            (first_seen ns)"
      using False by (auto simp: set_first_seen)
    from False ok not_proto show ?thesis
      by (simp add: count_sender_def Let_def sd js_get_keyed set_first_seen
          js_set_keyed_new first_seen_snoc zero others)
  qed
qed

lemma sender_counts_snoc:
  "sender_counts env (as @ [a]) = count_sender env (sender_counts env as) a"
  by (simp add: sender_counts_def)

lemma sender_counts_eq:
  "\<forall>a\<in>set as. sender_of a \<notin> set Object_prototype_names \<Longrightarrow>
     sender_counts env as
       = map (\<lambda>k. (k, Num (count_list (map sender_of as) k)))
           (first_seen (map sender_of as))"
proof (induction as rule: rev_induct)
  case Nil
  then show ?case
    by (simp add: sender_counts_Nil first_seen_Nil)
next
  case (snoc a as)
  then have "sender_counts env as
       = map (\<lambda>k. (k, Num (count_list (map sender_of as) k)))
           (first_seen (map sender_of as))"
    and "sender_of a \<notin> set Object_prototype_names"
    by simp_all
  then have "count_sender env (sender_counts env as) a
       = map (\<lambda>k. (k, Num (count_list (map sender_of as @ [sender_of a]) k)))
           (first_seen (map sender_of as @ [sender_of a]))"
    by (rule count_sender_keyed)
  then show ?case
    by (simp add: sender_counts_snoc)
qed

subsection \<open>Scenario A in the reference runtime\<close>

lemma day_of_local_midnight:
  fixes off k :: int
  assumes "0 \<le> off" and "off < 86400000"
  shows "(k * 86400000 + off) div 86400000 = k"
  using assms by simp

lemma monthKey_same_day:
  "Day (LocalTime env t) = Day t' \<Longrightarrow>
     monthKey env (Date t) = dec_int (YearFromTime t') @ ''-'' @ dec_int (MonthFromTime t' + 1)"
  by (simp add: monthKey_def getFullYear_def getMonth_def YearFromTime_def MonthFromTime_def
      DayWithinYear_def InLeapYear_def)

lemma key_text_2024_01_15:
  "dec_int (YearFromTime 1705276800000) @ ''-'' @ dec_int (MonthFromTime 1705276800000 + 1)
     = ''2024-1''"
  by code_simp

lemma key_text_2024_01_20:
  "dec_int (YearFromTime 1705708800000) @ ''-'' @ dec_int (MonthFromTime 1705708800000 + 1)
     = ''2024-1''"
  by code_simp

lemma key_text_2024_02_01:
  "dec_int (YearFromTime 1706745600000) @ ''-'' @ dec_int (MonthFromTime 1706745600000 + 1)
     = ''2024-2''"
  by code_simp

lemma key_2024_01_15:
  assumes "0 \<le> off" and "off < msPerDay"
  shows "monthKey (ref_env off) (Date 1705276800000) = ''2024-1''"
proof -
  have "Day (LocalTime (ref_env off) 1705276800000) = Day 1705276800000"
    using day_of_local_midnight [of off 19737] assms
    by (simp add: LocalTime_def ref_env_def Day_def msPerDay_def)
  then show ?thesis
    by (simp only: monthKey_same_day key_text_2024_01_15)
qed

lemma key_2024_01_20:
  assumes "0 \<le> off" and "off < msPerDay"
  shows "monthKey (ref_env off) (Date 1705708800000) = ''2024-1''"
proof -
  have "Day (LocalTime (ref_env off) 1705708800000) = Day 1705708800000"
    using day_of_local_midnight [of off 19742] assms
    by (simp add: LocalTime_def ref_env_def Day_def msPerDay_def)
  then show ?thesis
    by (simp only: monthKey_same_day key_text_2024_01_20)
qed

lemma key_2024_02_01:
  assumes "0 \<le> off" and "off < msPerDay"
  shows "monthKey (ref_env off) (Date 1706745600000) = ''2024-2''"
proof -
  have "Day (LocalTime (ref_env off) 1706745600000) = Day 1706745600000"
    using day_of_local_midnight [of off 19754] assms
    by (simp add: LocalTime_def ref_env_def Day_def msPerDay_def)
  then show ?thesis
    by (simp only: monthKey_same_day key_text_2024_02_01)
qed

lemma key_2024_02_01_west:
  "monthKey (ref_env (- 18000000)) (Date 1706745600000) = ''2024-1''"
  by code_simp

lemma key_2024_01_15_west:
  "monthKey (ref_env (- 18000000)) (Date 1705276800000) = ''2024-1''"
  by code_simp

lemma key_2024_01_20_west:
  "monthKey (ref_env (- 18000000)) (Date 1705708800000) = ''2024-1''"
  by code_simp

lemma scenarioA_counts:
  assumes "0 \<le> off" and "off < msPerDay"
  shows "monthly_counts (ref_env off) scenarioA_users
     = [ (''2024-1'', \<lparr> students = 1, lecturers = 1 \<rparr>),
         (''2024-2'', \<lparr> students = 1, lecturers = 0 \<rparr>) ]"
  using assms
  by (simp add: monthly_counts_def count_user_def Let_def scenarioA_users_def new_user_def
      new_Date_ref_env parse_2024_01_15 parse_2024_01_20 parse_2024_02_01
      key_2024_01_15 key_2024_01_20 key_2024_02_01
      js_get_def js_set_def js_modify_def Object_prototype_names_def)

lemma scenarioA_counts_west:
  "monthly_counts (ref_env (- 18000000)) scenarioA_users
     = [ (''2024-1'', \<lparr> students = 2, lecturers = 1 \<rparr>) ]"
  by (simp add: monthly_counts_def count_user_def Let_def scenarioA_users_def new_user_def
      new_Date_ref_env parse_2024_01_15 parse_2024_01_20 parse_2024_02_01
      key_2024_01_15_west key_2024_01_20_west key_2024_02_01_west
      js_get_def js_set_def js_modify_def Object_prototype_names_def)

lemma invalid_counts:
  "monthly_counts (ref_env off) [new_user 4 ''Dilan'' ''student'' ''not a date'']
     = [ (''NaN-NaN'', \<lparr> students = 1, lecturers = 0 \<rparr>) ]"
  by (simp add: monthly_counts_def count_user_def Let_def new_user_def
      new_Date_ref_env parse_not_a_date monthKey_invalid
      js_get_def js_set_def js_modify_def Object_prototype_names_def)

lemma keys_2024: "Object_keys [ (''2024-1'', a), (''2024-2'', b) ] = [''2024-1'', ''2024-2'']"
  by (simp add: Object_keys_def own_property_order_def is_array_index_def is_digit_def)

lemma keys_2024_1: "Object_keys [ (''2024-1'', a) ] = [''2024-1'']"
  by (simp add: Object_keys_def own_property_order_def is_array_index_def is_digit_def)

lemma keys_NaN: "Object_keys [ (''NaN-NaN'', a) ] = [''NaN-NaN'']"
  by (simp add: Object_keys_def own_property_order_def is_array_index_def is_digit_def)

lemma scenarioA_chart:
  assumes "0 \<le> off" and "off < msPerDay"
  shows "labels (chartData (getUserRegistrationData (ref_env off)
            (page k None None scenarioA_users as))) = [''2024-1'', ''2024-2'']
       \<and> map data (datasets (chartData (getUserRegistrationData (ref_env off)
            (page k None None scenarioA_users as)))) = [[1, 1], [1, 0]]"
  using assms
  by (simp add: getUserRegistrationData_def Let_def filterUsersByDateRange_def page_def
      scenarioA_counts keys_2024 column_def)

lemma scenarioA_chart_west:
  "labels (chartData (getUserRegistrationData (ref_env (- 18000000))
            (page k None None scenarioA_users as))) = [''2024-1'']
       \<and> map data (datasets (chartData (getUserRegistrationData (ref_env (- 18000000))
            (page k None None scenarioA_users as)))) = [[2], [1]]"
  by (simp add: getUserRegistrationData_def Let_def filterUsersByDateRange_def page_def
      scenarioA_counts_west keys_2024_1 column_def)

lemma invalid_chart:
  "labels (chartData (getUserRegistrationData (ref_env off)
            (page k None None [new_user 4 ''Dilan'' ''student'' ''not a date''] as)))
     = [''NaN-NaN'']
   \<and> map data (datasets (chartData (getUserRegistrationData (ref_env off)
            (page k None None [new_user 4 ''Dilan'' ''student'' ''not a date''] as))))
     = [[1], [0]]"
  by (simp add: getUserRegistrationData_def Let_def filterUsersByDateRange_def page_def
      invalid_counts keys_NaN column_def)

lemma month_text:
  "dec_int (MonthFromTime t + 1)
     \<in> (\<lambda>c. [c]) ` set ''123456789'' \<union> {''10'', ''11'', ''12''}"
proof -
  let ?m = "MonthFromTime t"
  have "?m = 0 \<or> ?m = 1 \<or> ?m = 2 \<or> ?m = 3 \<or> ?m = 4 \<or> ?m = 5 \<or> ?m = 6
      \<or> ?m = 7 \<or> ?m = 8 \<or> ?m = 9 \<or> ?m = 10 \<or> ?m = 11"
    using month_in_range [of t] by arith
  then show ?thesis
    by (elim disjE) (simp_all add: text_defs)
qed

lemma registration_labels_sorted:
  "sorted (labels (chartData (getUserRegistrationData env st)))
   \<and> distinct (labels (chartData (getUserRegistrationData env st)))
   \<and> set (labels (chartData (getUserRegistrationData env st)))
       = user_key env ` set (filterUsersByDateRange env st (users st))"
  by (simp add: registration_labels distinct_first_seen set_first_seen)
subsection \<open>Month keys and labels of the registration chart\<close>

text \<open>
  Claim C4, as stated: the bucket key of every record is the string year-month with a
  month from 1 to 12, the labels are these keys in ascending string order, and Scenario A
  with the window unset yields the labels 2024-1, 2024-2 with students 1, 1 and
  lecturers 1, 0. The key is built from \<^verbatim>\<open>getFullYear()\<close> and \<^verbatim>\<open>getMonth()\<close>, which
  read local time and return NaN on an invalid date. Where local time is five hours
  behind UTC, the record of 2024-02-01 (midnight UTC) falls on 31 January, and Scenario A
  yields the single label 2024-1 with students 2 and lecturers 1; a record whose
  timestamp does not parse gets the key NaN-NaN.
\<close>

theorem month_keys_counterexample:
  "labels (chartData (getUserRegistrationData (ref_env (- 18000000))
      (page (Some Users) None None scenarioA_users []))) = [''2024-1'']
   \<and> map data (datasets (chartData (getUserRegistrationData (ref_env (- 18000000))
      (page (Some Users) None None scenarioA_users [])))) = [[2], [1]]
   \<and> labels (chartData (getUserRegistrationData (ref_env 0)
      (page (Some Users) None None [new_user 4 ''Dilan'' ''student'' ''not a date''] [])))
     = [''NaN-NaN'']"
  by (simp add: scenarioA_chart_west invalid_chart)

text \<open>
  Claim C4, amended: for a record whose timestamp parses to a valid date, the bucket key
  is the year and the month of that instant in local time, printed as year, a dash, and
  the month as a number from 1 to 12 without a leading zero; for a record whose timestamp
  does not parse the key is NaN-NaN. The chart labels are exactly the distinct keys of
  the filtered records, in ascending order of string comparison. On Scenario A's three
  records with the window unset, in a runtime that reads a date-only string as midnight
  UTC and whose local time is ahead of UTC by zero up to less than 24 hours, the labels
  are 2024-1, 2024-2, the students dataset is 1, 1 and the lecturers dataset 1, 0.
\<close>

theorem month_keys:
  "(new_Date env s = Date t \<longrightarrow>
      monthKey env (new_Date env s)
        = dec_int (YearFromTime (LocalTime env t)) @ ''-''
            @ dec_int (MonthFromTime (LocalTime env t) + 1)
      \<and> 1 \<le> MonthFromTime (LocalTime env t) + 1
      \<and> MonthFromTime (LocalTime env t) + 1 \<le> 12
      \<and> dec_int (MonthFromTime (LocalTime env t) + 1)
          \<in> (\<lambda>c. [c]) ` set ''123456789'' \<union> {''10'', ''11'', ''12''})
   \<and> (new_Date env s = InvalidDate \<longrightarrow> monthKey env (new_Date env s) = ''NaN-NaN'')
   \<and> sorted (labels (chartData (getUserRegistrationData env st)))
   \<and> distinct (labels (chartData (getUserRegistrationData env st)))
   \<and> set (labels (chartData (getUserRegistrationData env st)))
       = (\<lambda>u. monthKey env (new_Date env (created_at u)))
           ` set (filterUsersByDateRange env st (users st))
   \<and> (0 \<le> off \<and> off < msPerDay \<longrightarrow>
        labels (chartData (getUserRegistrationData (ref_env off)
            (page k None None scenarioA_users as))) = [''2024-1'', ''2024-2'']
      \<and> map data (datasets (chartData (getUserRegistrationData (ref_env off)
            (page k None None scenarioA_users as)))) = [[1, 1], [1, 0]])"
proof -
  have valid: "monthKey env (Date t)
        = dec_int (YearFromTime (LocalTime env t)) @ ''-''
            @ dec_int (MonthFromTime (LocalTime env t) + 1)"
    by (simp add: monthKey_def getFullYear_def getMonth_def)
  have range: "1 \<le> MonthFromTime (LocalTime env t) + 1
      \<and> MonthFromTime (LocalTime env t) + 1 \<le> 12"
    using month_in_range [of "LocalTime env t"] by simp
  have keys: "user_key env = (\<lambda>u. monthKey env (new_Date env (created_at u)))"
    by (simp add: fun_eq_iff user_key_def)
  show ?thesis
    using valid range month_text [of "LocalTime env t"] monthKey_invalid [of env]
      registration_labels_sorted [of env st] scenarioA_chart [of off k as]
    by (simp add: keys)
qed

theorem month_keys_witness:
  "new_Date (ref_env 19800000) ''2024-02-01'' = Date 1706745600000
   \<and> new_Date (ref_env 19800000) ''not a date'' = InvalidDate
   \<and> (0::int) \<le> 19800000 \<and> 19800000 < msPerDay
   \<and> 1 \<le> MonthFromTime (LocalTime (ref_env 19800000) 1706745600000) + 1
   \<and> MonthFromTime (LocalTime (ref_env 19800000) 1706745600000) + 1 \<le> 12
   \<and> monthKey (ref_env 19800000) (new_Date (ref_env 19800000) ''not a date'')
       = ''NaN-NaN''
   \<and> labels (chartData (getUserRegistrationData (ref_env 19800000)
        (page (Some Users) None None scenarioA_users []))) = [''2024-1'', ''2024-2'']
   \<and> map data (datasets (chartData (getUserRegistrationData (ref_env 19800000)
        (page (Some Users) None None scenarioA_users [])))) = [[1, 1], [1, 0]]"
  using month_keys
    [of "ref_env 19800000" "''2024-02-01''" 1706745600000
        "page (Some Users) None None scenarioA_users []" 19800000 "Some Users" "[]"]
    month_keys
    [of "ref_env 19800000" "''not a date''" 0
        "page (Some Users) None None scenarioA_users []" 19800000 "Some Users" "[]"]
  by (simp add: new_Date_ref_env parse_2024_02_01 parse_not_a_date msPerDay_def)

subsection \<open>Records whose timestamp does not parse\<close>

text \<open>
  Claim C3, as stated: a record with a malformed timestamp contributes to no time bucket
  of the registration aggregation, yet still appears in the table rows with a placeholder
  date. Nothing in the aggregation tests the parsed date. With the window unset, one
  student whose timestamp does not parse makes the bucket NaN-NaN with one student; with
  both bounds set the same record is removed by the range filter and is in no table row.
\<close>

theorem invalid_timestamp_counterexample:
  "labels (chartData (getUserRegistrationData (ref_env 0)
      (page (Some Users) None None [new_user 4 ''Dilan'' ''student'' ''not a date''] [])))
     = [''NaN-NaN'']
   \<and> map data (datasets (chartData (getUserRegistrationData (ref_env 0)
      (page (Some Users) None None [new_user 4 ''Dilan'' ''student'' ''not a date''] []))))
     = [[1], [0]]
   \<and> tableData (getUserRegistrationData (ref_env 0)
      (page (Some Users) (Some (Date 0)) (Some (Date 1709078400000))
         [new_user 4 ''Dilan'' ''student'' ''not a date''] [])) = []"
  by (simp add: invalid_chart)
     (simp add: getUserRegistrationData_def filterUsersByDateRange_def page_def Let_def
        new_user_def new_Date_ref_env parse_not_a_date)

text \<open>
  Claim C3, amended: let a record of the fetched users have a timestamp that does not
  parse. When both bounds of the window are set, the range filter removes it, and it is
  neither aggregated nor in the table rows. When a bound is unset, it is in the table
  rows, its bucket key is NaN-NaN, that key is among the chart labels, and it is counted
  there under its role if that is student or lecturer (the datasets hold, per label, the
  numbers of filtered students and lecturers with that key). Its date cell in the
  exported table reads N/A when the timestamp string is empty and Invalid Date otherwise.
\<close>

theorem invalid_timestamp_report:
  assumes inv: "new_Date env (created_at u) = InvalidDate"
    and mem: "u \<in> set (users st)"
  shows "(startDate st \<noteq> None \<and> endDate st \<noteq> None \<longrightarrow>
            u \<notin> set (tableData (getUserRegistrationData env st)))
       \<and> (startDate st = None \<or> endDate st = None \<longrightarrow>
            u \<in> set (tableData (getUserRegistrationData env st))
          \<and> monthKey env (new_Date env (created_at u)) = ''NaN-NaN''
          \<and> ''NaN-NaN'' \<in> set (labels (chartData (getUserRegistrationData env st)))
          \<and> (role u = ''student'' \<longrightarrow>
               0 < students (tally env (tableData (getUserRegistrationData env st))
                               ''NaN-NaN''))
          \<and> (role u = ''lecturer'' \<longrightarrow>
               0 < lecturers (tally env (tableData (getUserRegistrationData env st))
                               ''NaN-NaN'')))
       \<and> map data (datasets (chartData (getUserRegistrationData env st)))
           = [ map (\<lambda>l. students (tally env (tableData (getUserRegistrationData env st)) l))
                 (labels (chartData (getUserRegistrationData env st))),
               map (\<lambda>l. lecturers (tally env (tableData (getUserRegistrationData env st)) l))
                 (labels (chartData (getUserRegistrationData env st))) ]
       \<and> date_cell env (created_at u)
           = (if created_at u = [] then ''N/A'' else ''Invalid Date'')
       \<and> (reportType st = Some Users \<longrightarrow>
            tables (content (downloadPDF env st))
              = [\<lparr> head = [[''Name'', ''Role'', ''Registered At'']],
                   body = map (\<lambda>v. [name v, role v, date_cell env (created_at v)])
                            (tableData (getUserRegistrationData env st)),
                   startY = 50 \<rparr>])"
proof -
  let ?T = "tableData (getUserRegistrationData env st)"
  have T: "?T = filterUsersByDateRange env st (users st)"
    by (simp add: getUserRegistrationData_def Let_def)
  have key: "user_key env u = ''NaN-NaN''"
    by (simp add: user_key_def inv monthKey_invalid)
  have both: "startDate st \<noteq> None \<and> endDate st \<noteq> None \<longrightarrow> u \<notin> set ?T"
    using inv by (auto simp: T filterUsersByDateRange_def)
  have one: "startDate st = None \<or> endDate st = None \<longrightarrow> u \<in> set ?T"
    using mem by (auto simp: T filterUsersByDateRange_def split: option.splits)
  have label: "u \<in> set ?T \<longrightarrow>
      ''NaN-NaN'' \<in> set (labels (chartData (getUserRegistrationData env st)))"
    using key by (force simp: registration_labels set_first_seen T image_iff)
  have stud: "u \<in> set ?T \<longrightarrow> role u = ''student'' \<longrightarrow>
      0 < students (tally env ?T ''NaN-NaN'')"
    using key by (auto simp: tally_def filter_empty_conv)
  have lect: "u \<in> set ?T \<longrightarrow> role u = ''lecturer'' \<longrightarrow>
      0 < lecturers (tally env ?T ''NaN-NaN'')"
    using key by (auto simp: tally_def filter_empty_conv)
  have cell: "date_cell env (created_at u)
      = (if created_at u = [] then ''N/A'' else ''Invalid Date'')"
    by (simp add: date_cell_def inv toLocaleDateString_def)
  have pdf: "reportType st = Some Users \<longrightarrow>
      tables (content (downloadPDF env st))
        = [\<lparr> head = [[''Name'', ''Role'', ''Registered At'']],
             body = map (\<lambda>v. [name v, role v, date_cell env (created_at v)]) ?T,
             startY = 50 \<rparr>]"
    by (simp add: downloadPDF_def)
  have k: "monthKey env (new_Date env (created_at u)) = ''NaN-NaN''"
    by (simp add: inv monthKey_invalid)
  from both one label stud lect cell pdf k registration_data [of env st] show ?thesis
    unfolding T by blast
qed

theorem invalid_timestamp_report_witness:
  "new_Date (ref_env 0) (created_at (new_user 4 ''Dilan'' ''student'' ''not a date''))
     = InvalidDate
   \<and> new_user 4 ''Dilan'' ''student'' ''not a date''
       \<notin> set (tableData (getUserRegistrationData (ref_env 0)
           (page (Some Users) (Some (Date 0)) (Some (Date 1709078400000))
              [new_user 4 ''Dilan'' ''student'' ''not a date''] [])))
   \<and> new_user 4 ''Dilan'' ''student'' ''not a date''
       \<in> set (tableData (getUserRegistrationData (ref_env 0)
           (page (Some Users) None (Some (Date 0))
              [new_user 4 ''Dilan'' ''student'' ''not a date''] [])))
   \<and> ''NaN-NaN'' \<in> set (labels (chartData (getUserRegistrationData (ref_env 0)
        (page (Some Users) None (Some (Date 0))
           [new_user 4 ''Dilan'' ''student'' ''not a date''] []))))
   \<and> 0 < students (tally (ref_env 0) (tableData (getUserRegistrationData (ref_env 0)
        (page (Some Users) None (Some (Date 0))
           [new_user 4 ''Dilan'' ''student'' ''not a date''] []))) ''NaN-NaN'')
   \<and> date_cell (ref_env 0) (created_at (new_user 4 ''Dilan'' ''student'' ''not a date''))
       = ''Invalid Date''
   \<and> map body (tables (content (downloadPDF (ref_env 0)
        (page (Some Users) None (Some (Date 0))
           [new_user 4 ''Dilan'' ''student'' ''not a date''] []))))
       = [[[''Dilan'', ''student'', ''Invalid Date'']]]"
proof -
  let ?u = "new_user 4 ''Dilan'' ''student'' ''not a date''"
  have inv: "new_Date (ref_env 0) (created_at ?u) = InvalidDate"
    by (simp add: new_Date_ref_env new_user_def parse_not_a_date)
  have cell: "date_cell (ref_env 0) ''not a date'' = ''Invalid Date''"
    by (simp add: date_cell_def new_Date_ref_env parse_not_a_date toLocaleDateString_def)
  have open_window: "tableData (getUserRegistrationData (ref_env 0)
      (page (Some Users) None (Some (Date 0)) [?u] [])) = [?u]"
    by (simp add: getUserRegistrationData_def Let_def filterUsersByDateRange_def page_def)
  from invalid_timestamp_report
      [of "ref_env 0" ?u "page (Some Users) (Some (Date 0)) (Some (Date 1709078400000)) [?u] []"]
    invalid_timestamp_report
      [of "ref_env 0" ?u "page (Some Users) None (Some (Date 0)) [?u] []"]
    inv
  show ?thesis
    unfolding open_window
    by (simp add: page_def) (simp add: new_user_def cell)
qed

subsection \<open>Labels and counts of the activity chart\<close>

lemma sender_of_cases:
  "(sender_name a = None \<or> sender_name a = Some [] \<longrightarrow> sender_of a = ''Unknown'')
   \<and> (sender_name a = Some n \<and> n \<noteq> [] \<longrightarrow> sender_of a = n)"
  by (auto simp: sender_of_def)

lemma activity_chart:
  assumes "\<forall>a\<in>set (filterAnnouncementsByDateRange env st (announcements st)).
             sender_of a \<notin> set Object_prototype_names"
  shows "labels (chartData (getAnnouncementActivityData env st))
           = key_order (first_seen
               (map sender_of (filterAnnouncementsByDateRange env st (announcements st))))"
    and "map data (datasets (chartData (getAnnouncementActivityData env st)))
           = [map (\<lambda>k. Num (count_list
                 (map sender_of (filterAnnouncementsByDateRange env st (announcements st))) k))
               (labels (chartData (getAnnouncementActivityData env st)))]"
  using assms
  by (simp_all add: getAnnouncementActivityData_def Let_def sender_counts_eq
      Object_keys_keyed Object_values_keyed)

lemma array_index_7: "is_array_index ''7''"
  by (simp add: is_array_index_def text_defs)

lemma not_array_index_letter:
  "\<not> is_digit c \<Longrightarrow> \<not> is_array_index (c # cs)"
  by (simp add: is_array_index_def)

lemma scenarioC_counts:
  "sender_counts env scenarioC_announcements = [(''Alice'', Num 2), (''Bob'', Num 1)]"
  by (simp add: sender_counts_def count_sender_def Let_def scenarioC_announcements_def
      new_announcement_def sender_of_def js_get_def js_set_def Object_prototype_names_def)

lemma scenarioC_chart:
  "labels (chartData (getAnnouncementActivityData env
      (page k None None us scenarioC_announcements))) = [''Alice'', ''Bob'']
   \<and> map data (datasets (chartData (getAnnouncementActivityData env
      (page k None None us scenarioC_announcements)))) = [[Num 2, Num 1]]"
  by (simp add: getAnnouncementActivityData_def Let_def filterAnnouncementsByDateRange_def
      page_def scenarioC_counts Object_keys_def Object_values_def own_property_order_def
      not_array_index_letter is_digit_def)

lemma scenarioD_counts:
  "sender_counts env [new_announcement i None c] = [(''Unknown'', Num 1)]"
  by (simp add: sender_counts_def count_sender_def Let_def new_announcement_def sender_of_def
      js_get_def js_set_def Object_prototype_names_def)

text \<open>
  Claim C6, as stated: the chart labels list the distinct actor names in first-seen
  order. \<^verbatim>\<open>Object.keys\<close> lists the property names that are array indices before all
  others: with the names Bob, then 7, the labels are 7, Bob.
\<close>

theorem sender_labels_counterexample:
  "labels (chartData (getAnnouncementActivityData (ref_env 0)
      (page (Some Announcements) None None []
         [ new_announcement 1 (Some ''Bob'') ''2024-01-15'',
           new_announcement 2 (Some ''7'') ''2024-01-20'' ])))
     = [''7'', ''Bob'']
   \<and> first_seen (map sender_of
         [ new_announcement 1 (Some ''Bob'') ''2024-01-15'',
           new_announcement 2 (Some ''7'') ''2024-01-20'' ])
     = [''Bob'', ''7'']"
  by (simp add: getAnnouncementActivityData_def Let_def filterAnnouncementsByDateRange_def
      page_def sender_counts_def count_sender_def new_announcement_def sender_of_def
      js_get_def js_set_def Object_prototype_names_def Object_keys_def
      own_property_order_def array_index_7 not_array_index_letter is_digit_def
      first_seen_def)

text \<open>
  Claim C6, amended: the bucket key of an activity record is its actor name, with
  \<^verbatim>\<open>Unknown\<close> in place of an absent or empty name. Provided no bucket key of the
  filtered records is the name of a property that a plain object inherits from
  \<^verbatim>\<open>Object.prototype\<close>, the chart labels are the distinct keys, those that are array
  indices first in ascending numeric order and the others after them in first-seen order
  (so plain first-seen order when no key is an array index), and the dataset holds for
  each label the number of filtered records with that key. On the actor names Alice, Bob,
  Alice this yields the mapping Alice 2, Bob 1, the labels Alice, Bob and the dataset
  2, 1; a record without actor name is counted under \<^verbatim>\<open>Unknown\<close>.
\<close>

theorem sender_labels:
  assumes "\<forall>a\<in>set (filterAnnouncementsByDateRange env st (announcements st)).
             sender_of a \<notin> set Object_prototype_names"
  shows "(sender_name a = None \<or> sender_name a = Some [] \<longrightarrow> sender_of a = ''Unknown'')
       \<and> (sender_name a = Some n \<and> n \<noteq> [] \<longrightarrow> sender_of a = n)
       \<and> labels (chartData (getAnnouncementActivityData env st))
           = sort_key nat_of_digits (filter is_array_index (first_seen
               (map sender_of (filterAnnouncementsByDateRange env st (announcements st)))))
             @ filter (\<lambda>k. \<not> is_array_index k) (first_seen
               (map sender_of (filterAnnouncementsByDateRange env st (announcements st))))
       \<and> ((\<forall>b\<in>set (filterAnnouncementsByDateRange env st (announcements st)).
               \<not> is_array_index (sender_of b)) \<longrightarrow>
            labels (chartData (getAnnouncementActivityData env st))
              = first_seen
                  (map sender_of (filterAnnouncementsByDateRange env st (announcements st))))
       \<and> map data (datasets (chartData (getAnnouncementActivityData env st)))
           = [map (\<lambda>k. Num (count_list
                 (map sender_of (filterAnnouncementsByDateRange env st (announcements st))) k))
               (labels (chartData (getAnnouncementActivityData env st)))]
       \<and> sender_counts env scenarioC_announcements = [(''Alice'', Num 2), (''Bob'', Num 1)]
       \<and> labels (chartData (getAnnouncementActivityData env
            (page k None None us scenarioC_announcements))) = [''Alice'', ''Bob'']
       \<and> map data (datasets (chartData (getAnnouncementActivityData env
            (page k None None us scenarioC_announcements)))) = [[Num 2, Num 1]]
       \<and> sender_counts env [new_announcement i None c] = [(''Unknown'', Num 1)]"
proof -
  let ?ns = "map sender_of (filterAnnouncementsByDateRange env st (announcements st))"
  have l: "labels (chartData (getAnnouncementActivityData env st))
      = key_order (first_seen ?ns)"
    using assms by (rule activity_chart(1))
  have plain: "(\<forall>b\<in>set (filterAnnouncementsByDateRange env st (announcements st)).
               \<not> is_array_index (sender_of b)) \<longrightarrow>
      labels (chartData (getAnnouncementActivityData env st)) = first_seen ?ns"
    by (simp add: l key_order_no_index set_first_seen)
  from l plain activity_chart(2) [OF assms] sender_of_cases [of a n] scenarioC_counts [of env]
    scenarioC_chart [of env k us] scenarioD_counts [of env i c]
  show ?thesis
    unfolding key_order_def by blast
qed

theorem sender_labels_witness:
  "sender_of (new_announcement 2 None ''2024-01-20'') = ''Unknown''
   \<and> labels (chartData (getAnnouncementActivityData (ref_env 0)
        (page (Some Announcements) None None []
           [ new_announcement 1 (Some ''Bob'') ''2024-01-15'',
             new_announcement 2 None ''2024-01-20'',
             new_announcement 3 (Some ''Bob'') ''2024-02-01'' ])))
       = [''Bob'', ''Unknown'']
   \<and> map data (datasets (chartData (getAnnouncementActivityData (ref_env 0)
        (page (Some Announcements) None None []
           [ new_announcement 1 (Some ''Bob'') ''2024-01-15'',
             new_announcement 2 None ''2024-01-20'',
             new_announcement 3 (Some ''Bob'') ''2024-02-01'' ]))))
       = [[Num 2, Num 1]]"
proof -
  let ?as = "[ new_announcement 1 (Some ''Bob'') ''2024-01-15'',
               new_announcement 2 None ''2024-01-20'',
               new_announcement 3 (Some ''Bob'') ''2024-02-01'' ]"
  let ?st = "page (Some Announcements) None None [] ?as"
  have f: "filterAnnouncementsByDateRange (ref_env 0) ?st (announcements ?st) = ?as"
    by (simp add: filterAnnouncementsByDateRange_def page_def)
  have ns: "sender_of (new_announcement 1 (Some ''Bob'') ''2024-01-15'') = ''Bob''"
    "sender_of (new_announcement 2 None ''2024-01-20'') = ''Unknown''"
    "sender_of (new_announcement 3 (Some ''Bob'') ''2024-02-01'') = ''Bob''"
    by (simp_all add: new_announcement_def sender_of_def)
  have h: "\<forall>a\<in>set (filterAnnouncementsByDateRange (ref_env 0) ?st (announcements ?st)).
      sender_of a \<notin> set Object_prototype_names"
    unfolding f
    by (simp add: new_announcement_def sender_of_def Object_prototype_names_def)
  have fs: "first_seen [''Bob'', ''Unknown'', ''Bob''] = [''Bob'', ''Unknown'']"
    by (simp add: first_seen_def)
  have ni: "\<not> is_array_index ''Bob''" "\<not> is_array_index ''Unknown''"
    by (simp_all add: not_array_index_letter is_digit_def)
  from sender_labels
    [OF h, of "new_announcement 2 None ''2024-01-20''" "''Bob''" None "[]" 1 "[]"]
  show ?thesis
    by (simp add: f ns fs ni)
qed

subsection \<open>Totals of the counts\<close>

text \<open>
  The counts of the registration chart add up to the number of filtered users whose role
  is student or lecturer.
\<close>

lemma sum_length_filter_key:
  assumes "finite K" and "key ` set us \<subseteq> K"
  shows "(\<Sum>l\<in>K. length (filter (\<lambda>u. key u = l \<and> P u) us)) = length (filter P us)"
  using assms(2)
proof (induction us)
  case Nil
  then show ?case by simp
next
  case (Cons u us)
  then have k: "key u \<in> K" and sub: "key ` set us \<subseteq> K"
    by simp_all
  have split: "length (filter (\<lambda>v. key v = l \<and> P v) (u # us))
      = (if l = key u then (if P u then 1 else 0) else 0)
        + length (filter (\<lambda>v. key v = l \<and> P v) us)" for l
    by auto
  have one: "(\<Sum>l\<in>K. if l = key u then (if P u then 1 else 0) else (0::nat))
      = (if P u then 1 else 0)"
    using assms(1) k by (simp add: sum.delta)
  have "(\<Sum>l\<in>K. length (filter (\<lambda>v. key v = l \<and> P v) (u # us)))
      = (\<Sum>l\<in>K. (if l = key u then (if P u then 1 else 0) else 0)
            + length (filter (\<lambda>v. key v = l \<and> P v) us))"
    by (simp only: split)
  also have "\<dots> = (if P u then 1 else 0) + length (filter P us)"
    by (simp only: sum.distrib one Cons.IH [OF sub])
  also have "\<dots> = length (filter P (u # us))"
    by simp
  finally show ?case .
qed

lemma registration_total:
  "sum_list (concat (map data (datasets (chartData (getUserRegistrationData env st)))))
     = length (filter (\<lambda>u. role u = ''student'' \<or> role u = ''lecturer'')
         (tableData (getUserRegistrationData env st)))"
proof -
  let ?T = "filterUsersByDateRange env st (users st)"
  let ?ls = "labels (chartData (getUserRegistrationData env st))"
  have T: "tableData (getUserRegistrationData env st) = ?T"
    by (simp add: getUserRegistrationData_def Let_def)
  have d: "distinct ?ls" and s: "set ?ls = user_key env ` set ?T"
    using registration_labels_sorted [of env st] by simp_all
  have st: "sum_list (map (\<lambda>l. students (tally env ?T l)) ?ls)
      = length (filter (\<lambda>u. role u = ''student'') ?T)"
    using sum_length_filter_key [of "set ?ls" "user_key env" ?T "\<lambda>u. role u = ''student''"]
    by (simp add: sum_list_distinct_conv_sum_set d s tally_def)
  have le: "sum_list (map (\<lambda>l. lecturers (tally env ?T l)) ?ls)
      = length (filter (\<lambda>u. role u = ''lecturer'') ?T)"
    using sum_length_filter_key [of "set ?ls" "user_key env" ?T "\<lambda>u. role u = ''lecturer''"]
    by (simp add: sum_list_distinct_conv_sum_set d s tally_def)
  have both: "length (filter (\<lambda>u. role u = ''student'') us)
      + length (filter (\<lambda>u. role u = ''lecturer'') us)
      = length (filter (\<lambda>u. role u = ''student'' \<or> role u = ''lecturer'') us)"
    for us :: "user list"
    by (induction us) auto
  show ?thesis
    by (simp add: registration_data T st le both)
qed

text \<open>
  The counts of the activity chart add up to the number of filtered announcements, as
  long as no bucket key is a name inherited from \<^verbatim>\<open>Object.prototype\<close>.
\<close>

lemma activity_total:
  assumes "\<forall>a\<in>set (filterAnnouncementsByDateRange env st (announcements st)).
             sender_of a \<notin> set Object_prototype_names"
  shows "\<exists>cs. map data (datasets (chartData (getAnnouncementActivityData env st)))
                = [map Num cs]
            \<and> sum_list cs = length (tableData (getAnnouncementActivityData env st))"
proof -
  let ?T = "filterAnnouncementsByDateRange env st (announcements st)"
  let ?ns = "map sender_of ?T"
  let ?ls = "labels (chartData (getAnnouncementActivityData env st))"
  have T: "tableData (getAnnouncementActivityData env st) = ?T"
    by (simp add: getAnnouncementActivityData_def Let_def)
  have l: "?ls = key_order (first_seen ?ns)"
    using assms by (rule activity_chart(1))
  have d: "distinct ?ls" and s: "set ?ls = set ?ns"
    by (simp_all add: l distinct_key_order distinct_first_seen set_key_order set_first_seen)
  have "sum_list (map (count_list ?ns) ?ls) = length ?ns"
    using sum_count_set [of ?ns "set ?ls"] by (simp add: sum_list_distinct_conv_sum_set d s)
  moreover have "map data (datasets (chartData (getAnnouncementActivityData env st)))
      = [map Num (map (count_list ?ns) ?ls)]"
    using activity_chart(2) [OF assms] by (simp add: comp_def)
  ultimately show ?thesis
    unfolding T by (intro exI [of _ "map (count_list ?ns) ?ls"]) simp
qed

text \<open>
  Claim C5: the counts of the bucketing step add up to the number of filtered records with
  a recognised role (registration) and to the number of all filtered records (activity).
  The registration part and the activity part for ordinary names are the two lemmas
  above. The activity part fails on a sender named \<^verbatim>\<open>__proto__\<close>: the read finds the
  inherited accessor, the assignment of the resulting string is ignored by its setter,
  and the record, still in the table rows, is in no bucket. On a sender named
  \<^verbatim>\<open>toString\<close> the stored value is a string, not a count.
\<close>

theorem sender_total_inherited_name:
  "tableData (getAnnouncementActivityData (ref_env 0)
      (page (Some Announcements) None None []
         [new_announcement 1 (Some ''__proto__'') ''2024-01-15'']))
     = [new_announcement 1 (Some ''__proto__'') ''2024-01-15'']
   \<and> chartData (getAnnouncementActivityData (ref_env 0)
      (page (Some Announcements) None None []
         [new_announcement 1 (Some ''__proto__'') ''2024-01-15'']))
     = \<lparr> labels = [],
         datasets = [\<lparr> label = ''Announcements'', data = [], borderColor = None,
                       backgroundColor = [] \<rparr>] \<rparr>
   \<and> map data (datasets (chartData (getAnnouncementActivityData (ref_env 0)
      (page (Some Announcements) None None []
         [new_announcement 1 (Some ''toString'') ''2024-01-15'']))))
     = [[Str ''function toString() { [native code] }1'']]"
  by (simp add: getAnnouncementActivityData_def Let_def filterAnnouncementsByDateRange_def
      page_def sender_counts_def count_sender_def new_announcement_def sender_of_def
      js_get_def js_set_def Object_prototype_names_def Object_keys_def Object_values_def
      own_property_order_def not_array_index_letter is_digit_def ref_env_def)

end
